theory Spec2Isabelle
  imports Complex_Main "HOL-Library.Product_Lexorder"
begin

section \<open>Data model\<close>

text \<open>
  A pandas Timestamp is modelled by its calendar date (year, month, day); every index
  handled by helpers.py is a daily or a month-end index at midnight, so the time of day
  is always zero. Dates are ordered lexicographically, which is chronological order.
\<close>

type_synonym date = "int \<times> int \<times> int"

definition is_leap :: "int \<Rightarrow> bool" where
  "is_leap y = (y mod 4 = 0 \<and> (y mod 100 \<noteq> 0 \<or> y mod 400 = 0))"

definition days_in_month :: "int \<Rightarrow> int \<Rightarrow> int" where
  "days_in_month y m =
     (if m = 2 then (if is_leap y then 29 else 28)
      else if m = 4 \<or> m = 6 \<or> m = 9 \<or> m = 11 then 30 else 31)"

definition days_before_year :: "int \<Rightarrow> int" where
  "days_before_year y = (y - 1) * 365 + (y - 1) div 4 - (y - 1) div 100 + (y - 1) div 400"

definition days_before_month :: "int \<Rightarrow> int \<Rightarrow> int" where
  "days_before_month y m =
     [0, 31, 59, 90, 120, 151, 181, 212, 243, 273, 304, 334] ! nat (m - 1)
       + (if 2 < m \<and> is_leap y then 1 else 0)"

text \<open>The proleptic Gregorian day number of a date, as \<^verbatim>\<open>date.toordinal\<close> computes it.\<close>

fun toordinal :: "date \<Rightarrow> int" where
  "toordinal (y, m, d) = days_before_year y + days_before_month y m + d"

text \<open>
  A float cell is a real number or missing (NaN): \<open>None\<close> is NaN. Rounding and the
  infinities of IEEE arithmetic are not represented.
\<close>

type_synonym val = "real option"

text \<open>A pandas Series: index labels with their values, in positional order.\<close>

type_synonym series = "(date \<times> val) list"

text \<open>A pandas DataFrame: the column names and the rows in positional order.\<close>

record frame =
  columns :: "string list"
  rows :: "(date \<times> (string \<Rightarrow> val)) list"

datatype error = Failure string | KeyError string | IndexError

datatype message = Info string | Warning string error

text \<open>
  The state the functions act on: the directories and the pickle files of the file
  system (a file holds the frame that was pickled into it), the lines printed so far,
  and the rest of the world (network, clock, the spreadsheet file), which only the
  provider functions touch.
\<close>

record 'w state =
  dirs :: "string set"
  files :: "string \<rightharpoonup> frame"
  out :: "message list"
  ext :: "'w"

type_synonym ('w, 'a) action = "'w state \<Rightarrow> (error + 'a) \<times> 'w state"

definition print :: "message \<Rightarrow> 'w state \<Rightarrow> 'w state" where
  "print m s = s\<lparr>out := out s @ [m]\<rparr>"

definition makedirs :: "string \<Rightarrow> 'w state \<Rightarrow> 'w state" where
  "makedirs d s = s\<lparr>dirs := insert d (dirs s)\<rparr>"

text \<open>\<^verbatim>\<open>os.path.join\<close> of two components (POSIX).\<close>

definition path_join :: "string \<Rightarrow> string \<Rightarrow> string" where
  "path_join a b =
     (if b \<noteq> [] \<and> hd b = CHR ''/'' then b
      else if a = [] \<or> last a = CHR ''/'' then a @ b
      else a @ ''/'' @ b)"

section \<open>The cache: load\_or\_download\<close>

definition load_or_download ::
  "string \<Rightarrow> ('w, frame) action \<Rightarrow> string \<Rightarrow> string \<Rightarrow> ('w, frame) action" where
  "load_or_download cache_file download_func description cache_dir s =
     (let s1 = makedirs cache_dir s;
          cache_path = path_join cache_dir cache_file
      in case files s1 cache_path of
           Some data \<Rightarrow>
             (Inr data, print (Info (''  Loading '' @ description @ '' from cache...'')) s1)
         | None \<Rightarrow>
             (case download_func (print (Info (''  Downloading '' @ description @ ''...'')) s1) of
                (Inl e, s2) \<Rightarrow> (Inl e, s2)
              | (Inr data, s2) \<Rightarrow> (Inr data, s2\<lparr>files := (files s2)(cache_path \<mapsto> data)\<rparr>)))"

section \<open>Interval extraction\<close>

text \<open>
  \<^verbatim>\<open>dates.diff() > pd.Timedelta(days=45)\<close>: the first difference is NaT, which compares
  False; every later entry tells whether the gap to the previous date exceeds 45 days.
\<close>

fun gaps_after :: "date \<Rightarrow> date list \<Rightarrow> bool list" where
  "gaps_after p [] = []"
| "gaps_after p (d # ds) = (45 < toordinal d - toordinal p) # gaps_after d ds"

fun gaps :: "date list \<Rightarrow> bool list" where
  "gaps [] = []"
| "gaps (d # ds) = False # gaps_after d ds"

fun cumsum :: "nat \<Rightarrow> bool list \<Rightarrow> nat list" where
  "cumsum acc [] = []"
| "cumsum acc (b # bs) = (acc + (if b then 1 else 0)) # cumsum (acc + (if b then 1 else 0)) bs"

text \<open>\<^verbatim>\<open>Series.unique()\<close>: the distinct values in order of first appearance.\<close>

fun unique :: "'a list \<Rightarrow> 'a list" where
  "unique [] = []"
| "unique (x # xs) = x # unique (filter (\<lambda>y. y \<noteq> x) xs)"

definition group_dates :: "date list \<Rightarrow> nat list \<Rightarrow> nat \<Rightarrow> date list" where
  "group_dates dates groups group_id = map fst (filter (\<lambda>(d, g). g = group_id) (zip dates groups))"

text \<open>
  The grouping loop that get\_recession\_periods and get\_inversion\_periods both contain,
  on the selected index. A group is never empty (lemma \<open>group_dates_nonempty\<close>), so
  \<^verbatim>\<open>iloc[0]\<close> and \<^verbatim>\<open>iloc[-1]\<close> are \<open>hd\<close> and \<open>last\<close>.
\<close>

definition periods_of :: "date list \<Rightarrow> (date \<times> date) list" where
  "periods_of dates =
     (let groups = cumsum 0 (gaps dates)
      in map (\<lambda>group_id. (hd (group_dates dates groups group_id),
                           last (group_dates dates groups group_id)))
             (unique groups))"

definition get_recession_periods :: "frame \<Rightarrow> (date \<times> date) list" where
  "get_recession_periods df =
     (if ''Recession'' \<notin> set (columns df) then []
      else let rec = filter (\<lambda>(d, r). r ''Recession'' = Some 1) (rows df)
           in if rec = [] then [] else periods_of (map fst rec))"

definition get_inversion_periods :: "frame \<Rightarrow> string \<Rightarrow> error + (date \<times> date) list" where
  "get_inversion_periods df spread_col =
     (if spread_col \<notin> set (columns df) then Inl (KeyError spread_col)
      else let inverted = filter (\<lambda>(d, r). case r spread_col of Some v \<Rightarrow> v < 0 | None \<Rightarrow> False)
                                 (rows df)
           in if inverted = [] then Inr [] else Inr (periods_of (map fst inverted)))"

text \<open>
  The interval extraction as the specification words it: an explicit scan that tracks
  the start of the current interval and the last date of the run, and closes the run
  when the gap to the next selected date exceeds the tolerance.
\<close>

fun scan_intervals :: "int \<Rightarrow> date \<Rightarrow> date \<Rightarrow> date list \<Rightarrow> (date \<times> date) list" where
  "scan_intervals tol start lst [] = [(start, lst)]"
| "scan_intervals tol start lst (d # ds) =
     (if tol < toordinal d - toordinal lst then (start, lst) # scan_intervals tol d d ds
      else scan_intervals tol start d ds)"

fun find_intervals_spec :: "int \<Rightarrow> date list \<Rightarrow> (date \<times> date) list" where
  "find_intervals_spec tol [] = []"
| "find_intervals_spec tol (d # ds) = scan_intervals tol d d ds"

section \<open>Resampling and percent change\<close>

definition month_index :: "date \<Rightarrow> int" where
  "month_index dt = (case dt of (y, m, d) \<Rightarrow> y * 12 + (m - 1))"

definition month_end :: "int \<Rightarrow> date" where
  "month_end k = (k div 12, k mod 12 + 1, days_in_month (k div 12) (k mod 12 + 1))"

text \<open>
  \<^verbatim>\<open>resample('ME')\<close>: the observations are put in date order, and there is one bin,
  labelled by its month end, for every calendar month from the month of the first
  observation to the month of the last one, also for a month that holds no observation.
  An empty input gives no bin.
\<close>

definition month_bins :: "(date \<times> 'a) list \<Rightarrow> (date \<times> 'a list) list" where
  "month_bins obs =
     (if obs = [] then []
      else let sorted_obs = sort_key fst obs;
               lo = month_index (fst (hd sorted_obs));
               hi = month_index (fst (last sorted_obs))
           in map (\<lambda>k. (month_end k, map snd (filter (\<lambda>(d, x). month_index d = k) sorted_obs)))
                  [lo..hi])"

text \<open>\<^verbatim>\<open>.last()\<close> of a bin: its last value that is not missing; missing when there is none.\<close>

definition last_valid :: "val list \<Rightarrow> val" where
  "last_valid vs = (case filter (\<lambda>v. v \<noteq> None) vs of [] \<Rightarrow> None | w # ws \<Rightarrow> last (w # ws))"

text \<open>\<^verbatim>\<open>.max()\<close> of a bin: the greatest value that is not missing; missing when there is none.\<close>

definition max_valid :: "val list \<Rightarrow> val" where
  "max_valid vs = (case map the (filter (\<lambda>v. v \<noteq> None) vs) of
                     [] \<Rightarrow> None | w # ws \<Rightarrow> Some (fold max ws w))"

definition resample_last :: "series \<Rightarrow> series" where
  "resample_last s = map (\<lambda>(d, vs). (d, last_valid vs)) (month_bins s)"

definition resample_frame :: "(val list \<Rightarrow> val) \<Rightarrow> frame \<Rightarrow> frame" where
  "resample_frame agg df =
     \<lparr>columns = columns df,
      rows = map (\<lambda>(d, rs). (d, \<lambda>c. agg (map (\<lambda>r. r c) rs))) (month_bins (rows df))\<rparr>"

text \<open>\<^verbatim>\<open>shift(periods)\<close>: the values move down by \<open>periods\<close> positions, missing values enter.\<close>

definition shift :: "nat \<Rightarrow> val list \<Rightarrow> val list" where
  "shift periods vs = take (length vs) (replicate periods None @ vs)"

text \<open>
  One cell of \<^verbatim>\<open>(data / data.shift(periods) - 1) * 100\<close>. A missing operand gives a
  missing result. Division by a zero predecessor gives an infinity or NaN in IEEE
  arithmetic; the model has no infinities and gives missing there.
\<close>

definition pct_cell :: "val \<Rightarrow> val \<Rightarrow> val" where
  "pct_cell v u = (case (v, u) of
                     (Some a, Some b) \<Rightarrow> if b = 0 then None else Some ((a / b - 1) * 100)
                   | _ \<Rightarrow> None)"

text \<open>
  \<^verbatim>\<open>pct_change(periods) * 100\<close> with no filling of missing values (pandas 3; pandas 2
  forward-fills missing values that follow a value before it divides, which makes no
  difference on a series whose missing values all come first).
\<close>

definition pct_change :: "nat \<Rightarrow> series \<Rightarrow> series" where
  "pct_change periods s =
     map (\<lambda>((d, v), u). (d, pct_cell v u)) (zip s (shift periods (map snd s)))"

text \<open>
  The variant of pandas 2, where the default \<^verbatim>\<open>fill_method='pad'\<close> replaces a missing
  value by the last value before it, if there is one, before the division.
\<close>

fun ffill_from :: "val \<Rightarrow> val list \<Rightarrow> val list" where
  "ffill_from prev [] = []"
| "ffill_from prev (None # vs) = prev # ffill_from prev vs"
| "ffill_from prev (Some x # vs) = Some x # ffill_from (Some x) vs"

definition pct_change_pad :: "nat \<Rightarrow> series \<Rightarrow> series" where
  "pct_change_pad periods s =
     pct_change periods (zip (map fst s) (ffill_from None (map snd s)))"

section \<open>Series and frame primitives\<close>

text \<open>\<^verbatim>\<open>df[c]\<close>: the column as a series, KeyError when the frame has no such column.\<close>

definition get_column :: "frame \<Rightarrow> string \<Rightarrow> error + series" where
  "get_column df c =
     (if c \<in> set (columns df) then Inr (map (\<lambda>(d, r). (d, r c)) (rows df)) else Inl (KeyError c))"

definition dropna :: "series \<Rightarrow> series" where
  "dropna s = filter (\<lambda>(d, v). v \<noteq> None) s"

text \<open>The value a series holds at a label: missing when the label is absent or holds NaN.\<close>

definition value_at :: "series \<Rightarrow> date \<Rightarrow> val" where
  "value_at s d = (case map_of s d of Some v \<Rightarrow> v | None \<Rightarrow> None)"

text \<open>
  \<^verbatim>\<open>s[date] = x\<close>: every entry with that label is overwritten; a new label is appended.
\<close>

definition setitem :: "series \<Rightarrow> date \<Rightarrow> val \<Rightarrow> series" where
  "setitem s date x =
     (if date \<in> fst ` set s then map (\<lambda>(d, v). (d, if d = date then x else v)) s
      else s @ [(date, x)])"

definition sort_index :: "series \<Rightarrow> series" where
  "sort_index s = sort_key fst s"

text \<open>
  \<^verbatim>\<open>pd.DataFrame({name: series, ...})\<close>: the index is the sorted union of the labels of
  all series; a cell is the series' value at the label, missing when the series has no
  such label. The series come with distinct labels.
\<close>

definition union_index :: "series list \<Rightarrow> date list" where
  "union_index ss = sort (remdups (concat (map (map fst) ss)))"

definition frame_of_series :: "(string \<times> series) list \<Rightarrow> frame" where
  "frame_of_series cols =
     \<lparr>columns = map fst cols,
      rows = map (\<lambda>d. (d, \<lambda>c. case map_of cols c of Some s \<Rightarrow> value_at s d | None \<Rightarrow> None))
                 (union_index (map snd cols))\<rparr>"

text \<open>\<^verbatim>\<open>df[c] = ...\<close> with one value per row, computed from the row and its label.\<close>

definition set_column :: "frame \<Rightarrow> string \<Rightarrow> (date \<Rightarrow> (string \<Rightarrow> val) \<Rightarrow> val) \<Rightarrow> frame" where
  "set_column df c f =
     \<lparr>columns = (if c \<in> set (columns df) then columns df else columns df @ [c]),
      rows = map (\<lambda>(d, r). (d, r(c := f d r))) (rows df)\<rparr>"

definition val_minus :: "val \<Rightarrow> val \<Rightarrow> val" where
  "val_minus a b = (case (a, b) of (Some x, Some y) \<Rightarrow> Some (x - y) | _ \<Rightarrow> None)"

text \<open>\<^verbatim>\<open>data[name] = x\<close> on a dict, which keeps insertion order.\<close>

definition dict_set :: "(string \<times> 'a) list \<Rightarrow> string \<Rightarrow> 'a \<Rightarrow> (string \<times> 'a) list" where
  "dict_set data name x =
     (if name \<in> fst ` set data then map (\<lambda>(k, v). (k, if k = name then x else v)) data
      else data @ [(name, x)])"

text \<open>\<^verbatim>\<open>df.dropna(subset=cs)\<close>: the rows in which every column of \<open>cs\<close> has a value.\<close>

definition dropna_subset :: "string list \<Rightarrow> frame \<Rightarrow> frame" where
  "dropna_subset cs df = df\<lparr>rows := filter (\<lambda>(d, r). \<forall>c \<in> set cs. r c \<noteq> None) (rows df)\<rparr>"


section \<open>Actions: state passing with exceptions\<close>

definition return :: "'a \<Rightarrow> ('w, 'a) action" where
  "return x s = (Inr x, s)"

definition raise :: "error \<Rightarrow> ('w, 'a) action" where
  "raise e s = (Inl e, s)"

definition bind :: "('w, 'a) action \<Rightarrow> ('a \<Rightarrow> ('w, 'b) action) \<Rightarrow> ('w, 'b) action" where
  "bind m f s = (case m s of (Inl e, s') \<Rightarrow> (Inl e, s') | (Inr x, s') \<Rightarrow> f x s')"

definition lift :: "error + 'a \<Rightarrow> ('w, 'a) action" where
  "lift r s = (r, s)"

definition say :: "message \<Rightarrow> ('w, unit) action" where
  "say m s = (Inr (), print m s)"

section \<open>The providers\<close>

text \<open>
  What helpers.py calls and does not define: the clock, \<^verbatim>\<open>yf.download\<close> (with the
  flattening of its column index), \<^verbatim>\<open>web.DataReader\<close> on FRED, and the reading of the
  World Bank workbook (lines 129 to 142: the download of the file when it is absent,
  \<^verbatim>\<open>read_excel\<close>, the month-end index and the numeric coercion of the Gold and Silver
  columns) with the move of a workbook found at the old location (lines 123 to 125).
  Each may fail and may change the state.
\<close>

record 'w env =
  clock :: "'w \<Rightarrow> date"
  yf_download :: "string \<Rightarrow> date \<Rightarrow> date \<Rightarrow> ('w, frame) action"
  fred_reader :: "string \<Rightarrow> date \<Rightarrow> date \<Rightarrow> ('w, frame) action"
  move_old_workbook :: "string \<Rightarrow> ('w, unit) action"
  read_world_bank :: "string \<Rightarrow> ('w, series \<times> series) action"

definition DEFAULT_START_DATE :: date where
  "DEFAULT_START_DATE = (1960, 1, 1)"

definition start_or_default :: "date option \<Rightarrow> date" where
  "start_or_default start_date = (case start_date of None \<Rightarrow> DEFAULT_START_DATE | Some d \<Rightarrow> d)"

definition end_or_now :: "'w env \<Rightarrow> date option \<Rightarrow> 'w state \<Rightarrow> date" where
  "end_or_now env end_date s = (case end_date of None \<Rightarrow> clock env (ext s) | Some d \<Rightarrow> d)"

section \<open>The loaders\<close>

text \<open>
  Informational lines are logged with their fixed text; the values interpolated into
  them are left out, but an index access that formats them and can raise is modelled.
\<close>

text \<open>
  load\_nasdaq\_data and load\_sp500\_data are the same function up to the ticker symbol,
  the cache file and the description; load\_index\_data is their common body.
\<close>

definition load_index_data ::
  "string \<Rightarrow> string \<Rightarrow> string \<Rightarrow> 'w env \<Rightarrow> date option \<Rightarrow> date option \<Rightarrow> string
   \<Rightarrow> ('w, frame \<times> series \<times> series) action" where
  "load_index_data symbol cache_file description env start_date end_date cache_dir s =
     (let start = start_or_default start_date;
          end = end_or_now env end_date s
      in bind (say (Info (''Loading '' @ description @ '' data...''))) (\<lambda>_.
         bind (load_or_download cache_file (yf_download env symbol start end) description cache_dir)
           (\<lambda>data.
         bind (lift (get_column data ''Close'')) (\<lambda>price.
           let monthly = resample_last price;
               pct = pct_change 6 monthly
           in return (data, monthly, pct)))) s)"

definition load_nasdaq_data ::
  "'w env \<Rightarrow> date option \<Rightarrow> date option \<Rightarrow> string \<Rightarrow> ('w, frame \<times> series \<times> series) action" where
  "load_nasdaq_data = load_index_data ''^IXIC'' ''nasdaq.pkl'' ''NASDAQ''"

definition load_sp500_data ::
  "'w env \<Rightarrow> date option \<Rightarrow> date option \<Rightarrow> string \<Rightarrow> ('w, frame \<times> series \<times> series) action" where
  "load_sp500_data = load_index_data ''^GSPC'' ''sp500.pkl'' ''S&P 500''"

text \<open>
  The loop of lines 172 to 174 (and 176 to 178): a secondary value is written into the
  copy of the primary series when its date is after the cutover and it is not missing.
  The secondary series is a resampled series, so each of its labels occurs once and
  \<^verbatim>\<open>yf_gold_monthly[date]\<close> is the value at that label.
\<close>

definition splice_series :: "series \<Rightarrow> date \<Rightarrow> series \<Rightarrow> series" where
  "splice_series primary wb_end_date secondary =
     fold (\<lambda>date acc. if wb_end_date < date \<and> value_at secondary date \<noteq> None
                       then setitem acc date (value_at secondary date) else acc)
          (map fst secondary) primary"

text \<open>The body of the try block of load\_gold\_silver\_data.\<close>

definition gold_silver_body ::
  "'w env \<Rightarrow> date \<Rightarrow> string \<Rightarrow> ('w, series \<times> series \<times> series \<times> series) action" where
  "gold_silver_body env end cache_dir =
     bind (read_world_bank env cache_dir) (\<lambda>(wb_gold, wb_silver).
       case dropna wb_gold of
         [] \<Rightarrow> raise IndexError
       | g # gs \<Rightarrow>
           let wb_end_date = fst (last (g # gs))
           in bind (say (Info ''  World Bank data: 1960-01 to ...'')) (\<lambda>_.
              bind (say (Info ''  Fetching recent Gold/Silver from Yahoo Finance...'')) (\<lambda>_.
              bind (load_or_download ''yf_gold.pkl'' (yf_download env ''GC=F'' wb_end_date end)
                      ''Yahoo Finance Gold'' cache_dir) (\<lambda>yf_gold.
              bind (load_or_download ''yf_silver.pkl'' (yf_download env ''SI=F'' wb_end_date end)
                      ''Yahoo Finance Silver'' cache_dir) (\<lambda>yf_silver.
              bind (lift (get_column yf_gold ''Close'')) (\<lambda>yf_gold_close.
              bind (lift (get_column yf_silver ''Close'')) (\<lambda>yf_silver_close.
                let yf_gold_monthly = resample_last yf_gold_close;
                    yf_silver_monthly = resample_last yf_silver_close;
                    gold_monthly = sort_index (splice_series wb_gold wb_end_date yf_gold_monthly);
                    silver_monthly = sort_index (splice_series wb_silver wb_end_date yf_silver_monthly);
                    gold_pct = pct_change 6 gold_monthly;
                    silver_pct = pct_change 6 silver_monthly
                in if dropna gold_monthly = [] then raise IndexError
                   else bind (say (Info ''  Gold: ...'')) (\<lambda>_.
                        if dropna silver_monthly = [] then raise IndexError
                        else bind (say (Info ''  Silver: ...'')) (\<lambda>_.
                             return (gold_monthly, gold_pct, silver_monthly, silver_pct))))))))))"

definition load_gold_silver_data ::
  "'w env \<Rightarrow> date option \<Rightarrow> date option \<Rightarrow> string
   \<Rightarrow> ('w, series \<times> series \<times> series \<times> series) action" where
  "load_gold_silver_data env start_date end_date cache_dir s =
     (let end = end_or_now env end_date s
      in bind (say (Info ''Loading Gold and Silver data...'')) (\<lambda>_.
         bind (move_old_workbook env cache_dir) (\<lambda>_. (\<lambda>s1.
           case gold_silver_body env end cache_dir s1 of
             (Inr r, s2) \<Rightarrow> (Inr r, s2)
           | (Inl e, s2) \<Rightarrow>
               (Inr ([], [], [], []),
                print (Warning ''Warning: Could not load Gold/Silver data: '' e) s2)))) s)"

text \<open>
  One round of the loop in the download function of load\_yield\_data: the column is
  stored before the line that formats the first and last date is printed, so an empty
  answer leaves an empty column and a warning.
\<close>

definition download_yield ::
  "'w env \<Rightarrow> date \<Rightarrow> date \<Rightarrow> string \<times> string \<Rightarrow> (string \<times> series) list
   \<Rightarrow> 'w state \<Rightarrow> (string \<times> series) list \<times> 'w state" where
  "download_yield env start end entry data s =
     (case entry of (series_id, name) \<Rightarrow>
        (case fred_reader env series_id start end s of
           (Inl e, s1) \<Rightarrow>
             (data, print (Warning (''    Warning: Could not download '' @ name @ '': '') e) s1)
         | (Inr df, s1) \<Rightarrow>
             (case get_column df series_id of
                Inl e \<Rightarrow>
                  (data, print (Warning (''    Warning: Could not download '' @ name @ '': '') e) s1)
              | Inr col \<Rightarrow>
                  (let data' = dict_set data name col
                   in if rows df = []
                      then (data', print (Warning (''    Warning: Could not download '' @ name @ '': '')
                                                  IndexError) s1)
                      else (data', print (Info (''    '' @ name @ '': ...'')) s1)))))"

definition yield_series :: "(string \<times> string) list" where
  "yield_series = [(''DGS2'', ''2Y Treasury''), (''DGS10'', ''10Y Treasury''),
                   (''DGS3MO'', ''3M Treasury''), (''DGS30'', ''30Y Treasury'')]"

definition download_yields :: "'w env \<Rightarrow> date \<Rightarrow> date \<Rightarrow> ('w, frame) action" where
  "download_yields env start end s =
     (case fold (\<lambda>entry (data, s'). download_yield env start end entry data s') yield_series ([], s)
      of (data, s') \<Rightarrow> (Inr (frame_of_series data), s'))"

definition spread_column :: "string \<Rightarrow> string \<Rightarrow> string \<Rightarrow> frame \<Rightarrow> error + frame" where
  "spread_column name a b df =
     (if a \<notin> set (columns df) then Inl (KeyError a)
      else if b \<notin> set (columns df) then Inl (KeyError b)
      else Inr (set_column df name (\<lambda>d r. val_minus (r a) (r b))))"

definition load_yield_data ::
  "'w env \<Rightarrow> date option \<Rightarrow> date option \<Rightarrow> string \<Rightarrow> ('w, frame \<times> frame) action" where
  "load_yield_data env start_date end_date cache_dir s =
     (let start = start_or_default start_date;
          end = end_or_now env end_date s
      in bind (say (Info ''Loading yield curve data from FRED...'')) (\<lambda>_.
         bind (load_or_download ''yields.pkl'' (download_yields env start end) ''Treasury yields''
                 cache_dir) (\<lambda>yields_df.
         bind (lift (spread_column ''10Y-2Y Spread'' ''10Y Treasury'' ''2Y Treasury'' yields_df))
           (\<lambda>yields_df.
         bind (lift (spread_column ''10Y-3M Spread'' ''10Y Treasury'' ''3M Treasury'' yields_df))
           (\<lambda>yields_df.
         return (yields_df, resample_frame last_valid yields_df))))) s)"

text \<open>
  load\_recession\_data catches every exception of its try block, so it has no error
  result: its value is the pair of frames, or \<open>None\<close> for the pair \<^verbatim>\<open>(None, None)\<close>.
\<close>

definition load_recession_data ::
  "'w env \<Rightarrow> date option \<Rightarrow> date option \<Rightarrow> string \<Rightarrow> 'w state
   \<Rightarrow> (frame \<times> frame) option \<times> 'w state" where
  "load_recession_data env start_date end_date cache_dir s =
     (let start = start_or_default start_date;
          end = end_or_now env end_date s;
          s0 = print (Info ''Loading recession data from FRED...'') s
      in case load_or_download ''recessions.pkl'' (fred_reader env ''USREC'' start end)
                ''recession indicators'' cache_dir s0 of
           (Inr recessions, s1) \<Rightarrow> (Some (recessions, resample_frame max_valid recessions), s1)
         | (Inl e, s1) \<Rightarrow>
             (None, print (Warning ''Warning: Could not load recession data: '' e) s1))"

section \<open>The merge: load\_all\_data\<close>

text \<open>Lines 254 to 268: the combined frame, the recession column and the row filter.\<close>

definition combine ::
  "series \<Rightarrow> series \<Rightarrow> series \<Rightarrow> series \<Rightarrow> series \<Rightarrow> series option \<Rightarrow> frame" where
  "combine nasdaq_pct sp500_pct spread gold_pct silver_pct recession =
     (let combined = frame_of_series
            [(''NASDAQ 6M %'', nasdaq_pct), (''S&P 500 6M %'', sp500_pct),
             (''Yield Spread'', spread), (''Gold 6M %'', gold_pct), (''Silver 6M %'', silver_pct)];
          combined = (case recession of
                        Some usrec \<Rightarrow> set_column combined ''Recession'' (\<lambda>d r. value_at usrec d)
                      | None \<Rightarrow> set_column combined ''Recession'' (\<lambda>d r. Some 0))
      in dropna_subset [''NASDAQ 6M %'', ''Yield Spread''] combined)"


definition first_label :: "(date \<times> 'a) list \<Rightarrow> error + date" where
  "first_label xs = (case xs of [] \<Rightarrow> Inl IndexError | x # _ \<Rightarrow> Inr (fst x))"

text \<open>The summary printed at the end: an index access on an empty frame raises.\<close>

definition print_summary ::
  "frame \<Rightarrow> frame \<Rightarrow> series \<Rightarrow> series \<Rightarrow> frame \<Rightarrow> frame \<Rightarrow> ('w, unit) action" where
  "print_summary nasdaq sp500 gold_monthly silver_monthly yields_df combined =
     bind (say (Info ''Data summary:'')) (\<lambda>_.
     bind (lift (first_label (rows nasdaq))) (\<lambda>_.
     bind (say (Info ''  NASDAQ: ...'')) (\<lambda>_.
     bind (lift (first_label (rows sp500))) (\<lambda>_.
     bind (say (Info ''  S&P 500: ...'')) (\<lambda>_.
     bind (if dropna gold_monthly = [] then return ()
           else bind (say (Info ''  Gold: ...'')) (\<lambda>_.
                bind (lift (first_label (dropna silver_monthly))) (\<lambda>_.
                say (Info ''  Silver: ...'')))) (\<lambda>_.
     bind (lift (first_label (rows yields_df))) (\<lambda>_.
     bind (say (Info ''  Yields: ...'')) (\<lambda>_.
     bind (lift (first_label (rows combined))) (\<lambda>_.
     bind (say (Info ''Combined data range: ...'')) (\<lambda>_.
     say (Info ''Total data points: ...'')))))))))))"

definition recession_column :: "(frame \<times> frame) option \<Rightarrow> error + series option" where
  "recession_column recession_result =
     (case recession_result of
        None \<Rightarrow> Inr None
      | Some (recessions, recessions_monthly) \<Rightarrow>
          (case get_column recessions_monthly ''USREC'' of
             Inl e \<Rightarrow> Inl e
           | Inr usrec \<Rightarrow> Inr (Some usrec)))"

definition load_all_data ::
  "'w env \<Rightarrow> date option \<Rightarrow> date option \<Rightarrow> string \<Rightarrow> ('w, frame) action" where
  "load_all_data env start_date end_date cache_dir s =
     (let start = start_or_default start_date;
          end = end_or_now env end_date s
      in bind (\<lambda>s. (Inr (), makedirs cache_dir s)) (\<lambda>_.
         bind (load_nasdaq_data env (Some start) (Some end) cache_dir)
           (\<lambda>(nasdaq, nasdaq_monthly, nasdaq_pct).
         bind (load_sp500_data env (Some start) (Some end) cache_dir)
           (\<lambda>(sp500, sp500_monthly, sp500_pct).
         bind (load_gold_silver_data env (Some start) (Some end) cache_dir)
           (\<lambda>(gold_monthly, gold_pct, silver_monthly, silver_pct).
         bind (load_yield_data env (Some start) (Some end) cache_dir)
           (\<lambda>(yields_df, yields_monthly).
         bind (\<lambda>s. case load_recession_data env (Some start) (Some end) cache_dir s of
                      (r, s') \<Rightarrow> (Inr r, s')) (\<lambda>recession_result.
         bind (lift (get_column yields_monthly ''10Y-2Y Spread'')) (\<lambda>spread.
         bind (lift (recession_column recession_result)) (\<lambda>recession.
           let combined = combine nasdaq_pct sp500_pct spread gold_pct silver_pct recession
           in bind (print_summary nasdaq sp500 gold_monthly silver_monthly yields_df combined)
                (\<lambda>_. return combined))))))))) s)"

section \<open>Example inputs\<close>


definition close_frame :: "(date \<times> real) list \<Rightarrow> frame" where
  "close_frame xs =
     \<lparr>columns = [''Close''],
      rows = map (\<lambda>(d, x). (d, \<lambda>c. if c = ''Close'' then Some x else None)) xs\<rparr>"

text \<open>A world that only counts the calls of the fetch function.\<close>

definition empty_state :: "nat state" where
  "empty_state = \<lparr>dirs = {}, files = Map.empty, out = [], ext = 0\<rparr>"

definition counting_fetch :: "frame \<Rightarrow> (nat, frame) action" where
  "counting_fetch data s = (Inr data, s\<lparr>ext := Suc (ext s)\<rparr>)"

definition failing_fetch :: "(nat, frame) action" where
  "failing_fetch s = (Inl (Failure ''no network''), s\<lparr>ext := Suc (ext s)\<rparr>)"

text \<open>Providers that answer with the requested start date as their only row.\<close>

definition demo_env :: "nat env" where
  "demo_env =
     \<lparr>clock = (\<lambda>w. (2024, 6, 30)),
      yf_download = (\<lambda>symbol start end. counting_fetch (close_frame [(start, 1)])),
      fred_reader = (\<lambda>series_id start end. counting_fetch (close_frame [(start, 1)])),
      move_old_workbook = (\<lambda>cache_dir. return ()),
      read_world_bank = (\<lambda>cache_dir. return ([((2020, 6, 30), Some 1700)],
                                                [((2020, 6, 30), Some 18)]))\<rparr>"

definition yields_frame :: frame where
  "yields_frame =
     \<lparr>columns = [''2Y Treasury'', ''10Y Treasury'', ''3M Treasury'', ''30Y Treasury''],
      rows = [((2020, 1, 2), \<lambda>c. if c = ''10Y Treasury'' then Some 2 else Some 1)]\<rparr>"

definition cached_state :: "nat state" where
  "cached_state =
     \<lparr>dirs = {''data_cache''},
      files = [''data_cache/nasdaq.pkl'' \<mapsto> close_frame [((2020, 1, 2), 9000)],
               ''data_cache/sp500.pkl'' \<mapsto> close_frame [((2020, 1, 2), 3200)],
               ''data_cache/yields.pkl'' \<mapsto> yields_frame,
               ''data_cache/recessions.pkl'' \<mapsto> close_frame [((2020, 1, 1), 0)],
               ''data_cache/yf_gold.pkl'' \<mapsto> close_frame [((2020, 7, 31), 1970)],
               ''data_cache/yf_silver.pkl'' \<mapsto> close_frame [((2020, 7, 31), 24)]],
      out = [], ext = 0\<rparr>"

text \<open>
  Four monthly rows, three of them in recession: 10 days lie between the first two
  recession dates and 60 days between the last two.
\<close>

definition recession_frame :: frame where
  "recession_frame =
     \<lparr>columns = [''Yield Spread'', ''Recession''],
      rows = [((2020, 1, 31), \<lambda>c. if c = ''Recession'' then Some 1 else Some (-1)),
              ((2020, 2, 5), \<lambda>c. if c = ''Recession'' then Some 0 else None),
              ((2020, 2, 10), \<lambda>c. if c = ''Recession'' then Some 1 else Some (-2)),
              ((2020, 4, 10), \<lambda>c. if c = ''Recession'' then Some 1 else Some (-1))]\<rparr>"


text \<open>
  A World Bank workbook whose gold column ends in June 2020 and whose silver column ends
  in May 2020, with Yahoo Finance answering for June and July 2020; and the same world
  with Yahoo Finance unreachable.
\<close>

definition wb_gold_example :: series where
  "wb_gold_example = [((2020, 4, 30), Some 1680), ((2020, 5, 31), Some 1715), ((2020, 6, 30), Some 1732)]"

definition yahoo_gold_example :: series where
  "yahoo_gold_example = [((2020, 6, 30), Some 1780), ((2020, 7, 31), Some 1970), ((2020, 8, 31), None)]"

definition wb_silver_example :: series where
  "wb_silver_example = [((2020, 4, 30), Some 15), ((2020, 5, 31), Some 16), ((2020, 6, 30), None)]"

definition metals_env :: "nat env" where
  "metals_env =
     \<lparr>clock = (\<lambda>w. (2020, 8, 15)),
      yf_download = (\<lambda>symbol start end.
         counting_fetch (if symbol = ''GC=F''
                         then close_frame [((2020, 6, 30), 1780), ((2020, 7, 31), 1970)]
                         else close_frame [((2020, 6, 30), 18), ((2020, 7, 31), 24)])),
      fred_reader = (\<lambda>series_id start end. failing_fetch),
      move_old_workbook = (\<lambda>cache_dir. return ()),
      read_world_bank = (\<lambda>cache_dir. return (wb_gold_example, wb_silver_example))\<rparr>"




section \<open>Properties of the cache\<close>

lemma files_print [simp]: "files (print m s) = files s"
  by (simp add: print_def)

lemma files_makedirs [simp]: "files (makedirs d s) = files s"
  by (simp add: makedirs_def)

lemma ext_print [simp]: "ext (print m s) = ext s"
  by (simp add: print_def)

lemma ext_makedirs [simp]: "ext (makedirs d s) = ext s"
  by (simp add: makedirs_def)

lemma makedirs_idem [simp]: "makedirs d (makedirs d s) = makedirs d s"
  by (simp add: makedirs_def)

lemma load_or_download_hit:
  "files s (path_join cache_dir cache_file) = Some data \<Longrightarrow>
   load_or_download cache_file f description cache_dir s =
     (Inr data, print (Info (''  Loading '' @ description @ '' from cache...'')) (makedirs cache_dir s))"
  by (simp add: load_or_download_def Let_def)

text \<open>
  C7 (cache idempotence). When the cache has no entry for the key and the first call of
  load\_or\_download returns a value, that call ran the fetch function once, on the state
  after the directory was made and the line was printed, and stored the value; the second
  call returns the same value and leaves the state as it was apart from its printed line,
  so it does not run the fetch function.
\<close>

theorem load_or_download_idempotent:
  assumes "files s (path_join cache_dir cache_file) = None"
    and "load_or_download cache_file f description cache_dir s = (Inr data, s')"
  shows "(\<exists>s1. f (print (Info (''  Downloading '' @ description @ ''...'')) (makedirs cache_dir s))
                 = (Inr data, s1)
              \<and> s' = s1\<lparr>files := (files s1)(path_join cache_dir cache_file \<mapsto> data)\<rparr>)
         \<and> load_or_download cache_file f description cache_dir s'
             = (Inr data, print (Info (''  Loading '' @ description @ '' from cache...''))
                                (makedirs cache_dir s'))"
proof -
  let ?p = "path_join cache_dir cache_file"
  let ?s0 = "print (Info (''  Downloading '' @ description @ ''...'')) (makedirs cache_dir s)"
  obtain r s1 where f: "f ?s0 = (r, s1)"
    by (cases "f ?s0")
  from assms f have r: "r = Inr data" and s': "s' = s1\<lparr>files := (files s1)(?p \<mapsto> data)\<rparr>"
    by (auto simp: load_or_download_def Let_def split: sum.splits)
  from s' have "files s' ?p = Some data"
    by simp
  then have "load_or_download cache_file f description cache_dir s'
      = (Inr data, print (Info (''  Loading '' @ description @ '' from cache...''))
                         (makedirs cache_dir s'))"
    by (rule load_or_download_hit)
  with f r s' show ?thesis
    by blast
qed

theorem load_or_download_idempotent_witness:
  "files empty_state (path_join ''data_cache'' ''nasdaq.pkl'') = None
   \<and> (case load_or_download ''nasdaq.pkl'' (counting_fetch (close_frame [])) ''NASDAQ''
             ''data_cache'' empty_state of
        (r1, s1) \<Rightarrow>
          (case load_or_download ''nasdaq.pkl'' (counting_fetch (close_frame [])) ''NASDAQ''
                  ''data_cache'' s1 of
             (r2, s2) \<Rightarrow> r1 = Inr (close_frame []) \<and> r2 = r1 \<and> ext s1 = 1 \<and> ext s2 = 1))"
proof -
  let ?f = "counting_fetch (close_frame [])"
  let ?s1 = "\<lparr>dirs = {''data_cache''},
              files = [path_join ''data_cache'' ''nasdaq.pkl'' \<mapsto> close_frame []],
              out = [Info ''  Downloading NASDAQ...''], ext = Suc 0\<rparr>"
  have h1: "files empty_state (path_join ''data_cache'' ''nasdaq.pkl'') = None"
    by (simp add: empty_state_def)
  have h2: "load_or_download ''nasdaq.pkl'' ?f ''NASDAQ'' ''data_cache'' empty_state
              = (Inr (close_frame []), ?s1)"
    by (simp add: load_or_download_def empty_state_def counting_fetch_def makedirs_def print_def)
  from load_or_download_idempotent [OF h1 h2] h1 h2 show ?thesis
    by (simp add: print_def makedirs_def)
qed

text \<open>
  C8 (failure atomicity). When the cache has no entry for the key and the fetch function
  raises, load\_or\_download raises the same error and returns the very state the fetch
  function left: it writes no file.
\<close>

theorem load_or_download_failure_atomic:
  assumes "files s (path_join cache_dir cache_file) = None"
    and "f (print (Info (''  Downloading '' @ description @ ''...'')) (makedirs cache_dir s))
           = (Inl e, s2)"
  shows "load_or_download cache_file f description cache_dir s = (Inl e, s2)"
  using assms by (simp add: load_or_download_def Let_def)

theorem load_or_download_failure_atomic_witness:
  "files empty_state (path_join ''data_cache'' ''nasdaq.pkl'') = None
   \<and> fst (load_or_download ''nasdaq.pkl'' failing_fetch ''NASDAQ'' ''data_cache'' empty_state)
       = Inl (Failure ''no network'')
   \<and> files (snd (load_or_download ''nasdaq.pkl'' failing_fetch ''NASDAQ'' ''data_cache''
                    empty_state)) = files empty_state"
proof -
  let ?s2 = "\<lparr>dirs = {''data_cache''}, files = Map.empty,
              out = [Info ''  Downloading NASDAQ...''], ext = Suc 0\<rparr>"
  have h1: "files empty_state (path_join ''data_cache'' ''nasdaq.pkl'') = None"
    by (simp add: empty_state_def)
  have h2: "failing_fetch (print (Info (''  Downloading '' @ ''NASDAQ'' @ ''...''))
                             (makedirs ''data_cache'' empty_state))
              = (Inl (Failure ''no network''), ?s2)"
    by (simp add: failing_fetch_def empty_state_def makedirs_def print_def)
  from load_or_download_failure_atomic [where f = failing_fetch and description = "''NASDAQ''", OF h1 h2] h1
  show ?thesis
    by (simp add: empty_state_def)
qed

lemma gold_silver_cache_hit:
  assumes mv: "move_old_workbook env cache_dir (print (Info ''Loading Gold and Silver data...'') s)
                 = (Inr (), s1)"
    and wb: "read_world_bank env cache_dir s1 = (Inr wb, s2)"
    and g: "files s2 (path_join cache_dir ''yf_gold.pkl'') \<noteq> None"
    and sv: "files s2 (path_join cache_dir ''yf_silver.pkl'') \<noteq> None"
  shows "load_gold_silver_data env start1 end1 cache_dir s
           = load_gold_silver_data env start2 end2 cache_dir s"
proof -
  obtain wb_gold wb_silver where p: "wb = (wb_gold, wb_silver)"
    by (cases wb)
  from g sv obtain dg ds where f: "files s2 (path_join cache_dir ''yf_gold.pkl'') = Some dg"
      "files s2 (path_join cache_dir ''yf_silver.pkl'') = Some ds"
    by blast
  have "gold_silver_body env e1 cache_dir s1 = gold_silver_body env e2 cache_dir s1" for e1 e2
    using wb p f
    by (cases "dropna wb_gold")
       (simp_all add: gold_silver_body_def bind_def say_def load_or_download_hit Let_def del: last.simps)
  then have "gold_silver_body env (end_or_now env end1 s) cache_dir s1
               = gold_silver_body env (end_or_now env end2 s) cache_dir s1" .
  with mv show ?thesis
    by (simp add: load_gold_silver_data_def Let_def bind_def say_def)
qed

text \<open>
  C10 (the date arguments do not reach a cached answer). The cache file of a loader has a
  fixed name, so when the file exists the loader returns the same result, and leaves the
  same state, for every pair of date arguments: this holds for load\_nasdaq\_data,
  load\_sp500\_data, load\_yield\_data and load\_recession\_data, and for
  load\_gold\_silver\_data when both Yahoo Finance files exist after the World Bank
  workbook was read.
\<close>

theorem cache_hit_ignores_dates:
  "(files s (path_join cache_dir ''nasdaq.pkl'') \<noteq> None \<longrightarrow>
      load_nasdaq_data env start1 end1 cache_dir s = load_nasdaq_data env start2 end2 cache_dir s)
   \<and> (files s (path_join cache_dir ''sp500.pkl'') \<noteq> None \<longrightarrow>
      load_sp500_data env start1 end1 cache_dir s = load_sp500_data env start2 end2 cache_dir s)
   \<and> (files s (path_join cache_dir ''yields.pkl'') \<noteq> None \<longrightarrow>
      load_yield_data env start1 end1 cache_dir s = load_yield_data env start2 end2 cache_dir s)
   \<and> (files s (path_join cache_dir ''recessions.pkl'') \<noteq> None \<longrightarrow>
      load_recession_data env start1 end1 cache_dir s
        = load_recession_data env start2 end2 cache_dir s)
   \<and> (move_old_workbook env cache_dir (print (Info ''Loading Gold and Silver data...'') s)
         = (Inr (), s1) \<longrightarrow>
      read_world_bank env cache_dir s1 = (Inr wb, s2) \<longrightarrow>
      files s2 (path_join cache_dir ''yf_gold.pkl'') \<noteq> None \<longrightarrow>
      files s2 (path_join cache_dir ''yf_silver.pkl'') \<noteq> None \<longrightarrow>
      load_gold_silver_data env start1 end1 cache_dir s
        = load_gold_silver_data env start2 end2 cache_dir s)"
proof -
  have index: "load_index_data symbol name description env start1 end1 cache_dir s
                 = load_index_data symbol name description env start2 end2 cache_dir s"
    if "files s (path_join cache_dir name) \<noteq> None" for symbol name description
  proof -
    from that obtain data where "files s (path_join cache_dir name) = Some data"
      by blast
    then have "files (print m s) (path_join cache_dir name) = Some data" for m
      by simp
    then show ?thesis
      by (simp add: load_index_data_def Let_def bind_def say_def load_or_download_hit)
  qed
  have yields: "load_yield_data env start1 end1 cache_dir s
                  = load_yield_data env start2 end2 cache_dir s"
    if "files s (path_join cache_dir ''yields.pkl'') \<noteq> None"
  proof -
    from that obtain data where "files s (path_join cache_dir ''yields.pkl'') = Some data"
      by blast
    then have "files (print m s) (path_join cache_dir ''yields.pkl'') = Some data" for m
      by simp
    then show ?thesis
      by (simp add: load_yield_data_def Let_def bind_def say_def load_or_download_hit)
  qed
  have recessions: "load_recession_data env start1 end1 cache_dir s
                      = load_recession_data env start2 end2 cache_dir s"
    if "files s (path_join cache_dir ''recessions.pkl'') \<noteq> None"
  proof -
    from that obtain data where "files s (path_join cache_dir ''recessions.pkl'') = Some data"
      by blast
    then have "files (print m s) (path_join cache_dir ''recessions.pkl'') = Some data" for m
      by simp
    then show ?thesis
      by (simp add: load_recession_data_def Let_def load_or_download_hit)
  qed
  from index yields recessions
    gold_silver_cache_hit [of env cache_dir s s1 wb s2 start1 end1 start2 end2]
  show ?thesis
    by (simp add: load_nasdaq_data_def load_sp500_data_def)
qed

theorem cache_hit_ignores_dates_witness:
  "files cached_state (path_join ''data_cache'' ''nasdaq.pkl'') \<noteq> None
   \<and> files cached_state (path_join ''data_cache'' ''sp500.pkl'') \<noteq> None
   \<and> files cached_state (path_join ''data_cache'' ''yields.pkl'') \<noteq> None
   \<and> files cached_state (path_join ''data_cache'' ''recessions.pkl'') \<noteq> None
   \<and> load_nasdaq_data demo_env (Some (1960, 1, 1)) (Some (2024, 1, 1)) ''data_cache'' cached_state
       = load_nasdaq_data demo_env (Some (2000, 1, 1)) None ''data_cache'' cached_state
   \<and> load_sp500_data demo_env (Some (1960, 1, 1)) (Some (2024, 1, 1)) ''data_cache'' cached_state
       = load_sp500_data demo_env (Some (2000, 1, 1)) None ''data_cache'' cached_state
   \<and> load_yield_data demo_env (Some (1960, 1, 1)) (Some (2024, 1, 1)) ''data_cache'' cached_state
       = load_yield_data demo_env (Some (2000, 1, 1)) None ''data_cache'' cached_state
   \<and> load_recession_data demo_env (Some (1960, 1, 1)) (Some (2024, 1, 1)) ''data_cache''
         cached_state
       = load_recession_data demo_env (Some (2000, 1, 1)) None ''data_cache'' cached_state
   \<and> fst (load_nasdaq_data demo_env (Some (2000, 1, 1)) None ''data_cache'' cached_state)
       = Inr (close_frame [((2020, 1, 2), 9000)], [((2020, 1, 31), Some 9000)],
              [((2020, 1, 31), None)])
   \<and> files (print (Info ''Loading Gold and Silver data...'') cached_state)
        (path_join ''data_cache'' ''yf_gold.pkl'') \<noteq> None
   \<and> files (print (Info ''Loading Gold and Silver data...'') cached_state)
        (path_join ''data_cache'' ''yf_silver.pkl'') \<noteq> None
   \<and> load_gold_silver_data demo_env (Some (1960, 1, 1)) (Some (2024, 1, 1)) ''data_cache''
         cached_state
       = load_gold_silver_data demo_env (Some (2000, 1, 1)) None ''data_cache'' cached_state"
proof -
  let ?s1 = "print (Info ''Loading Gold and Silver data...'') cached_state"
  have mv: "move_old_workbook demo_env ''data_cache'' ?s1 = (Inr (), ?s1)"
    by (simp add: demo_env_def return_def)
  have wb: "read_world_bank demo_env ''data_cache'' ?s1
              = (Inr ([((2020, 6, 30), Some 1700)], [((2020, 6, 30), Some 18)]), ?s1)"
    by (simp add: demo_env_def return_def)
  have yf: "files ?s1 (path_join ''data_cache'' ''yf_gold.pkl'') \<noteq> None"
      "files ?s1 (path_join ''data_cache'' ''yf_silver.pkl'') \<noteq> None"
    by (simp_all add: cached_state_def path_join_def)
  have h: "files cached_state (path_join ''data_cache'' ''nasdaq.pkl'') \<noteq> None"
      "files cached_state (path_join ''data_cache'' ''sp500.pkl'') \<noteq> None"
      "files cached_state (path_join ''data_cache'' ''yields.pkl'') \<noteq> None"
      "files cached_state (path_join ''data_cache'' ''recessions.pkl'') \<noteq> None"
    by (simp_all add: cached_state_def path_join_def)
  have v: "fst (load_nasdaq_data demo_env (Some (2000, 1, 1)) None ''data_cache'' cached_state)
       = Inr (close_frame [((2020, 1, 2), 9000)], [((2020, 1, 31), Some 9000)],
              [((2020, 1, 31), None)])"
    by (simp add: load_nasdaq_data_def load_index_data_def load_or_download_def Let_def bind_def
        say_def lift_def return_def cached_state_def path_join_def makedirs_def print_def
        get_column_def close_frame_def resample_last_def month_bins_def month_index_def
        month_end_def days_in_month_def is_leap_def last_valid_def pct_change_def shift_def
        pct_cell_def upto.simps)
  from cache_hit_ignores_dates [where s = cached_state and cache_dir = "''data_cache''"
      and env = demo_env and ?start1.0 = "Some (1960, 1, 1)" and ?end1.0 = "Some (2024, 1, 1)"
      and ?start2.0 = "Some (2000, 1, 1)" and ?end2.0 = None and ?s1.0 = ?s1 and ?s2.0 = ?s1
      and wb = "([((2020, 6, 30), Some 1700)], [((2020, 6, 30), Some 18)])"]
    h v mv wb yf
  show ?thesis
    by simp
qed

section \<open>Properties of the interval extraction\<close>

lemma length_gaps_after [simp]: "length (gaps_after p ds) = length ds"
  by (induction ds arbitrary: p) auto

lemma length_cumsum [simp]: "length (cumsum acc bs) = length bs"
  by (induction bs arbitrary: acc) auto

lemma cumsum_ge: "l \<in> set (cumsum acc bs) \<Longrightarrow> acc \<le> l"
proof (induction bs arbitrary: acc)
  case Nil
  then show ?case by simp
next
  case (Cons b bs)
  from Cons.prems have "l = acc + (if b then 1 else 0) \<or> l \<in> set (cumsum (acc + (if b then 1 else 0)) bs)"
    by simp
  then show ?case
  proof
    assume "l = acc + (if b then 1 else 0)"
    then show ?thesis by simp
  next
    assume "l \<in> set (cumsum (acc + (if b then 1 else 0)) bs)"
    then have "acc + (if b then 1 else 0) \<le> l" by (rule Cons.IH)
    then show ?thesis by simp
  qed
qed

lemma group_dates_append:
  "length xs = length ls \<Longrightarrow>
   group_dates (xs @ ys) (ls @ ms) g = group_dates xs ls g @ group_dates ys ms g"
  by (simp add: group_dates_def)

lemma group_dates_none: "g \<notin> set ls \<Longrightarrow> group_dates xs ls g = []"
  by (auto simp: group_dates_def filter_empty_conv dest: set_zip_rightD)

lemma group_dates_replicate: "group_dates xs (replicate (length xs) g) g = xs"
  by (induction xs) (auto simp: group_dates_def)

lemma group_dates_Cons:
  "group_dates (x # xs) (l # ls) g = (if l = g then x # group_dates xs ls g else group_dates xs ls g)"
  by (simp add: group_dates_def)

lemma filter_neq_id: "a \<notin> set xs \<Longrightarrow> filter (\<lambda>y. y \<noteq> a) xs = xs"
  by (induction xs) auto

lemma unique_replicate_append:
  "0 < n \<Longrightarrow> a \<notin> set xs \<Longrightarrow> unique (replicate n a @ xs) = a # unique xs"
  by (cases n) (simp_all add: filter_neq_id)

lemma unique_replicate: "0 < n \<Longrightarrow> unique (replicate n a) = [a]"
  using unique_replicate_append [of n a "[]"] by simp

lemma periods_scan:
  assumes "run \<noteq> []" "length pre = length lpre" "\<forall>l \<in> set lpre. l < acc"
  shows "map (\<lambda>g. (hd (group_dates (pre @ run @ ds)
                         (lpre @ replicate (length run) acc @ cumsum acc (gaps_after (last run) ds)) g),
                   last (group_dates (pre @ run @ ds)
                         (lpre @ replicate (length run) acc @ cumsum acc (gaps_after (last run) ds)) g)))
             (unique (replicate (length run) acc @ cumsum acc (gaps_after (last run) ds)))
         = scan_intervals 45 (hd run) (last run) ds"
  using assms
proof (induction ds arbitrary: pre lpre run acc)
  case Nil
  then have "acc \<notin> set lpre" by auto
  with Nil show ?case
    by (simp add: unique_replicate group_dates_append group_dates_none group_dates_replicate)
next
  case (Cons d ds)
  have nl: "acc \<notin> set lpre" using Cons.prems by auto
  show ?case
  proof (cases "45 < toordinal d - toordinal (last run)")
    case False
    have a: "(run @ [d]) @ ds = run @ d # ds"
      by simp
    have b: "replicate (length (run @ [d])) acc @ ys = replicate (length run) acc @ acc # ys" for ys
      by (simp add: replicate_append_same)
    have c: "last (run @ [d]) = d" "hd (run @ [d]) = hd run"
      using Cons.prems(1) by simp_all
    have l: "cumsum acc (gaps_after (last run) (d # ds)) = acc # cumsum acc (gaps_after d ds)"
      using False by simp
    have s: "scan_intervals 45 (hd run) (last run) (d # ds) = scan_intervals 45 (hd run) d ds"
      using False by simp
    have "run @ [d] \<noteq> []"
      by simp
    from Cons.IH [OF this Cons.prems(2) Cons.prems(3)] show ?thesis
      unfolding a b c l s .
  next
    case True
    let ?rest = "cumsum (Suc acc) (gaps_after d ds)"
    have r: "acc \<notin> set (Suc acc # ?rest)"
      by (auto dest: cumsum_ge)
    have ih: "map (\<lambda>g. (hd (group_dates ((pre @ run) @ [d] @ ds)
                         ((lpre @ replicate (length run) acc) @ replicate (length [d]) (Suc acc) @ cumsum (Suc acc) (gaps_after (last [d]) ds)) g),
                   last (group_dates ((pre @ run) @ [d] @ ds)
                         ((lpre @ replicate (length run) acc) @ replicate (length [d]) (Suc acc) @ cumsum (Suc acc) (gaps_after (last [d]) ds)) g)))
             (unique (replicate (length [d]) (Suc acc) @ cumsum (Suc acc) (gaps_after (last [d]) ds)))
         = scan_intervals 45 (hd [d]) (last [d]) ds"
      using Cons.prems by (intro Cons.IH) auto
    have g: "group_dates (pre @ run @ d # ds) (lpre @ replicate (length run) acc @ Suc acc # ?rest) acc = run"
      using Cons.prems nl r
      by (simp add: group_dates_append group_dates_none group_dates_replicate)
    from True Cons.prems(1) r show ?thesis
      using ih g by (simp add: unique_replicate_append)
  qed
qed

lemma periods_of_scan: "periods_of ds = find_intervals_spec 45 ds"
proof (cases ds)
  case Nil
  then show ?thesis by (simp add: periods_of_def)
next
  case (Cons d ds')
  from periods_scan [of "[d]" "[]" "[]" 0 ds'] Cons show ?thesis
    by (simp add: periods_of_def)
qed

lemma set_unique [simp]: "set (unique xs) = set xs"
proof (induction xs rule: unique.induct)
  case 1
  then show ?case by simp
next
  case (2 x xs)
  then show ?case by auto
qed

lemma group_dates_nonempty:
  assumes "length dates = length groups" and "g \<in> set groups"
  shows "group_dates dates groups g \<noteq> []"
proof -
  from assms(2) obtain i where i: "i < length groups" "groups ! i = g"
    by (auto simp: in_set_conv_nth)
  with assms(1) have "(dates ! i, g) \<in> set (zip dates groups)"
    by (auto simp: set_zip)
  then show ?thesis
    by (auto simp: group_dates_def filter_empty_conv)
qed

lemma periods_of_groups_nonempty:
  "g \<in> set (unique (cumsum 0 (gaps ds))) \<Longrightarrow> group_dates ds (cumsum 0 (gaps ds)) g \<noteq> []"
proof -
  have "length ds = length (cumsum 0 (gaps ds))"
    by (cases ds) simp_all
  then show "g \<in> set (unique (cumsum 0 (gaps ds))) \<Longrightarrow> ?thesis"
    by (simp add: group_dates_nonempty)
qed

text \<open>
  C6 (interval extraction). Both functions select the dates where their predicate holds
  (Recession equal to 1; spread below 0, a missing spread not being below 0) and return
  what the scan of the specification returns on the selected dates with a tolerance of
  45 days: a new interval starts exactly when the gap to the previous selected date
  exceeds 45 days, and each interval runs from the first to the last date of its group.
  No selected date gives the empty list. Three selected dates with gaps of 10 and 60
  days give the two intervals \<open>(d1, d2)\<close> and \<open>(d3, d3)\<close>.
\<close>

theorem interval_extraction:
  "(''Recession'' \<in> set (columns df) \<longrightarrow>
      get_recession_periods df
        = find_intervals_spec 45 (map fst (filter (\<lambda>(d, r). r ''Recession'' = Some 1) (rows df))))
   \<and> (spread_col \<in> set (columns df) \<longrightarrow>
      get_inversion_periods df spread_col
        = Inr (find_intervals_spec 45
                 (map fst (filter (\<lambda>(d, r). case r spread_col of Some v \<Rightarrow> v < 0 | None \<Rightarrow> False)
                                  (rows df)))))
   \<and> (filter (\<lambda>(d, r). r ''Recession'' = Some 1) (rows df) = [] \<longrightarrow> get_recession_periods df = [])
   \<and> (filter (\<lambda>(d, r). case r spread_col of Some v \<Rightarrow> v < 0 | None \<Rightarrow> False) (rows df) = []
        \<longrightarrow> spread_col \<in> set (columns df) \<longrightarrow> get_inversion_periods df spread_col = Inr [])
   \<and> (''Recession'' \<in> set (columns df) \<longrightarrow>
      map fst (filter (\<lambda>(d, r). r ''Recession'' = Some 1) (rows df)) = [d1, d2, d3] \<longrightarrow>
      toordinal d2 - toordinal d1 = 10 \<longrightarrow> toordinal d3 - toordinal d2 = 60 \<longrightarrow>
      get_recession_periods df = [(d1, d2), (d3, d3)])"
proof -
  have rec: "get_recession_periods df
        = find_intervals_spec 45 (map fst (filter (\<lambda>(d, r). r ''Recession'' = Some 1) (rows df)))"
    if "''Recession'' \<in> set (columns df)"
    using that by (simp add: get_recession_periods_def Let_def periods_of_scan)
  have inv: "get_inversion_periods df spread_col
        = Inr (find_intervals_spec 45
                 (map fst (filter (\<lambda>(d, r). case r spread_col of Some v \<Rightarrow> v < 0 | None \<Rightarrow> False)
                                  (rows df))))"
    if "spread_col \<in> set (columns df)"
    using that by (simp add: get_inversion_periods_def Let_def periods_of_scan)
  have none: "get_recession_periods df = []"
    if "filter (\<lambda>(d, r). r ''Recession'' = Some 1) (rows df) = []"
    using that by (simp add: get_recession_periods_def Let_def)
  have ex: "get_recession_periods df = [(d1, d2), (d3, d3)]"
    if "''Recession'' \<in> set (columns df)"
      and "map fst (filter (\<lambda>(d, r). r ''Recession'' = Some 1) (rows df)) = [d1, d2, d3]"
      and "toordinal d2 - toordinal d1 = 10" and "toordinal d3 - toordinal d2 = 60"
    using that by (simp add: rec)
  from rec inv none ex show ?thesis
    by simp
qed

theorem interval_extraction_witness:
  "''Recession'' \<in> set (columns recession_frame)
   \<and> ''Yield Spread'' \<in> set (columns recession_frame)
   \<and> map fst (filter (\<lambda>(d, r). r ''Recession'' = Some 1) (rows recession_frame))
       = [(2020, 1, 31), (2020, 2, 10), (2020, 4, 10)]
   \<and> toordinal (2020, 2, 10) - toordinal (2020, 1, 31) = 10
   \<and> toordinal (2020, 4, 10) - toordinal (2020, 2, 10) = 60
   \<and> get_recession_periods recession_frame
       = [((2020, 1, 31), (2020, 2, 10)), ((2020, 4, 10), (2020, 4, 10))]
   \<and> get_inversion_periods recession_frame ''Yield Spread''
       = Inr [((2020, 1, 31), (2020, 2, 10)), ((2020, 4, 10), (2020, 4, 10))]
   \<and> filter (\<lambda>(d, r). r ''Recession'' = Some 1) (rows (close_frame [((2020, 1, 31), 5)])) = []
   \<and> get_recession_periods (close_frame [((2020, 1, 31), 5)]) = []
   \<and> filter (\<lambda>(d, r). case r ''Close'' of Some v \<Rightarrow> v < 0 | None \<Rightarrow> False)
        (rows (close_frame [((2020, 1, 31), 5)])) = []
   \<and> get_inversion_periods (close_frame [((2020, 1, 31), 5)]) ''Close'' = Inr []"
proof -
  have h: "''Recession'' \<in> set (columns recession_frame)"
      "''Yield Spread'' \<in> set (columns recession_frame)"
      "map fst (filter (\<lambda>(d, r). r ''Recession'' = Some 1) (rows recession_frame))
         = [(2020, 1, 31), (2020, 2, 10), (2020, 4, 10)]"
      "map fst (filter (\<lambda>(d, r). case r ''Yield Spread'' of Some v \<Rightarrow> v < 0 | None \<Rightarrow> False)
                  (rows recession_frame))
         = [(2020, 1, 31), (2020, 2, 10), (2020, 4, 10)]"
    by (simp_all add: recession_frame_def)
  have g: "toordinal (2020, 2, 10) - toordinal (2020, 1, 31) = 10"
      "toordinal (2020, 4, 10) - toordinal (2020, 2, 10) = 60"
    by (simp_all add: days_before_year_def days_before_month_def is_leap_def)
  have e: "filter (\<lambda>(d, r). r ''Recession'' = Some 1) (rows (close_frame [((2020, 1, 31), 5)])) = []"
      "filter (\<lambda>(d, r). case r ''Close'' of Some v \<Rightarrow> v < 0 | None \<Rightarrow> False)
         (rows (close_frame [((2020, 1, 31), 5)])) = []"
      "''Close'' \<in> set (columns (close_frame [((2020, 1, 31), 5)]))"
    by (simp_all add: close_frame_def)
  from interval_extraction [of recession_frame "''Yield Spread''" "(2020, 1, 31)" "(2020, 2, 10)"
      "(2020, 4, 10)"]
    interval_extraction [of "close_frame [((2020, 1, 31), 5)]" "''Close''"]
    h g e
  show ?thesis
    by simp
qed

section \<open>Properties of the resampling\<close>

lemma sort_key_hd_Min:
  assumes "s \<noteq> []"
  shows "fst (hd (sort_key fst s)) = Min (fst ` set s)"
proof -
  obtain x xs where xs: "sort_key fst s = x # xs"
    using assms by (cases "sort_key fst s") (auto dest: arg_cong [where f = length])
  have "sorted (map fst (sort_key fst s))"
    by (rule sorted_sort_key)
  with xs have le: "\<forall>y \<in> set xs. fst x \<le> fst y"
    by simp
  have set: "set s = insert x (set xs)"
    using xs by (metis list.simps(15) set_sort)
  have "Min (fst ` set s) = fst x"
    by (rule Min_eqI) (use le set in auto)
  with xs show ?thesis by simp
qed

lemma sort_key_last_Max:
  assumes "s \<noteq> []"
  shows "fst (last (sort_key fst s)) = Max (fst ` set s)"
proof -
  have ne: "sort_key fst s \<noteq> []"
    using assms by (auto dest: arg_cong [where f = length])
  then obtain x xs where xs: "sort_key fst s = xs @ [x]"
    by (metis append_butlast_last_id)
  have "sorted (map fst (sort_key fst s))"
    by (rule sorted_sort_key)
  with xs have le: "\<forall>y \<in> set xs. fst y \<le> fst x"
    by (simp add: sorted_append)
  have set: "set s = insert x (set xs)"
    using xs by (metis Un_insert_right append_Nil2 list.simps(15) set_append set_sort)
  have "Max (fst ` set s) = fst x"
    by (rule Max_eqI) (use le set in auto)
  with xs show ?thesis by simp
qed

lemma month_end_inj: "month_end k = month_end k' \<Longrightarrow> k = k'"
proof -
  assume "month_end k = month_end k'"
  then have "k div 12 = k' div 12" "k mod 12 = k' mod 12"
    by (simp_all add: month_end_def)
  then show ?thesis
    by (metis div_mult_mod_eq)
qed

lemma map_of_month_rows:
  "map_of (map (\<lambda>k. (month_end k, g k)) ks) (month_end k) = (if k \<in> set ks then Some (g k) else None)"
  by (induction ks) (auto dest: month_end_inj)

lemma resample_last_Nil [simp]: "resample_last [] = []"
  by (simp add: resample_last_def month_bins_def)

lemma resample_last_eq:
  "s \<noteq> [] \<Longrightarrow>
   resample_last s =
     map (\<lambda>k. (month_end k,
               last_valid (map snd (filter (\<lambda>(d, v). month_index d = k) (sort_key fst s)))))
         [month_index (Min (fst ` set s)) .. month_index (Max (fst ` set s))]"
  by (simp add: resample_last_def month_bins_def Let_def sort_key_hd_Min sort_key_last_Max)

lemma last_valid_Nil [simp]: "last_valid [] = None"
  by (simp add: last_valid_def)

text \<open>
  C4 (monthly resampling), as the code has it. A series that is not empty resamples to
  exactly one row, labelled with the month end, for every calendar month from the month
  of its earliest date to the month of its latest date. The row of a month holds the
  last value that is not missing among the observations of that month in date order; a
  month of that range without an observation has a row with a missing value, and a
  month outside the range has no row. The daily series with values on 2020-01-05,
  2020-01-20 and 2020-02-10 gives exactly two rows, January with the value of
  2020-01-20 and February with the value of 2020-02-10.
\<close>

theorem resample_last_rows:
  assumes "s \<noteq> []"
  shows "map fst (resample_last s)
           = map month_end [month_index (Min (fst ` set s)) .. month_index (Max (fst ` set s))]
    \<and> (\<forall>k \<in> {month_index (Min (fst ` set s)) .. month_index (Max (fst ` set s))}.
          map_of (resample_last s) (month_end k)
            = Some (last_valid (map snd (filter (\<lambda>(d, v). month_index d = k) (sort_key fst s))))
          \<and> ((\<forall>(d, v) \<in> set s. month_index d \<noteq> k) \<longrightarrow>
               map_of (resample_last s) (month_end k) = Some None))
    \<and> (\<forall>k. k \<notin> {month_index (Min (fst ` set s)) .. month_index (Max (fst ` set s))} \<longrightarrow>
          map_of (resample_last s) (month_end k) = None)
    \<and> resample_last [((2020, 1, 5), Some a), ((2020, 1, 20), Some b), ((2020, 2, 10), Some c)]
        = [((2020, 1, 31), Some b), ((2020, 2, 29), Some c)]"
proof -
  let ?lo = "month_index (Min (fst ` set s))" and ?hi = "month_index (Max (fst ` set s))"
  let ?g = "\<lambda>k. last_valid (map snd (filter (\<lambda>(d, v). month_index d = k) (sort_key fst s)))"
  have eq: "resample_last s = map (\<lambda>k. (month_end k, ?g k)) [?lo .. ?hi]"
    using assms by (rule resample_last_eq)
  have labels: "map fst (resample_last s) = map month_end [?lo .. ?hi]"
    by (simp add: eq)
  have at: "map_of (resample_last s) (month_end k) = (if k \<in> {?lo .. ?hi} then Some (?g k) else None)"
    for k
    unfolding eq by (simp add: map_of_month_rows)
  have empty: "?g k = None" if "\<forall>(d, v) \<in> set s. month_index d \<noteq> k" for k
  proof -
    from that have "filter (\<lambda>(d, v). month_index d = k) (sort_key fst s) = []"
      by (auto simp: filter_empty_conv)
    then show ?thesis by simp
  qed
  have ex: "resample_last [((2020, 1, 5), Some a), ((2020, 1, 20), Some b), ((2020, 2, 10), Some c)]
        = [((2020, 1, 31), Some b), ((2020, 2, 29), Some c)]"
    by (simp add: resample_last_def month_bins_def month_index_def month_end_def days_in_month_def
        is_leap_def last_valid_def upto.simps)
  from labels at empty ex show ?thesis
    by simp
qed

theorem resample_last_rows_witness:
  "[((2020, 1, 5), Some 1), ((2020, 3, 10), Some (2::real))] \<noteq> []
   \<and> map fst (resample_last [((2020, 1, 5), Some 1), ((2020, 3, 10), Some 2)])
       = [(2020, 1, 31), (2020, 2, 29), (2020, 3, 31)]
   \<and> map_of (resample_last [((2020, 1, 5), Some 1), ((2020, 3, 10), Some 2)]) (2020, 3, 31)
       = Some (Some 2)
   \<and> map_of (resample_last [((2020, 1, 5), Some 1), ((2020, 3, 10), Some 2)]) (2020, 2, 29)
       = Some None
   \<and> map_of (resample_last [((2020, 1, 5), Some 1), ((2020, 3, 10), Some 2)]) (2020, 4, 30)
       = None"
  using resample_last_rows [of "[((2020, 1, 5), Some 1), ((2020, 3, 10), Some 2)]" 0 0 0]
  by (simp add: resample_last_def month_bins_def month_index_def month_end_def days_in_month_def
      is_leap_def last_valid_def upto.simps)

text \<open>
  The claim as the specification words it fails: February 2020 holds no observation of
  this series, and the resampled series has a row for it, with a missing value.
\<close>

theorem resample_gap_month_counterexample:
  "resample_last [((2020, 1, 5), Some 1), ((2020, 3, 10), Some 2)]
     = [((2020, 1, 31), Some 1), ((2020, 2, 29), None), ((2020, 3, 31), Some 2)]"
  by (simp add: resample_last_def month_bins_def month_index_def month_end_def days_in_month_def
      is_leap_def last_valid_def upto.simps)

section \<open>Properties of the percent change\<close>

lemma length_shift [simp]: "length (shift n vs) = length vs"
  by (simp add: shift_def)


lemma length_pct_change [simp]: "length (pct_change n s) = length s"
  by (simp add: pct_change_def)

lemma fst_pct_change [simp]: "map fst (pct_change n s) = map fst s"
  by (rule nth_equalityI) (simp_all add: pct_change_def split_def)


lemma pct_cell_None [simp]: "pct_cell v None = None" "pct_cell None u = None"
  by (simp_all add: pct_cell_def split: option.splits)






text \<open>
  The padding default of pandas 2 gives the same percent changes on every series whose
  missing values all come first; with a missing value after a value the two differ.
\<close>

lemma ffill_from_Some [simp]: "ffill_from prev (map Some xs) = map Some xs"
  by (induction xs arbitrary: prev) auto

lemma ffill_from_leading:
  "ffill_from None (replicate k None @ map Some xs) = replicate k None @ map Some xs"
  by (induction k) auto

lemma pct_change_pad_eq:
  assumes "map snd s = replicate k None @ map Some xs"
  shows "pct_change_pad periods s = pct_change periods s"
proof -
  have "ffill_from None (map snd s) = map snd s"
    unfolding assms by (rule ffill_from_leading)
  then have "zip (map fst s) (ffill_from None (map snd s)) = s"
    by (simp add: zip_map_fst_snd)
  then show ?thesis
    by (simp add: pct_change_pad_def)
qed

lemma pct_change_pad_differs:
  "map snd (pct_change_pad 1 [((2020, 1, 31), Some 100), ((2020, 2, 29), None), ((2020, 3, 31), Some 150)])
     = [None, Some 0, Some 50]
   \<and> map snd (pct_change 1 [((2020, 1, 31), Some 100), ((2020, 2, 29), None), ((2020, 3, 31), Some 150)])
     = [None, None, None]"
  by (simp add: pct_change_pad_def pct_change_def shift_def pct_cell_def)

section \<open>Properties of the gold and silver splice\<close>

lemma map_of_overwrite:
  "map_of (map (\<lambda>(d', v). (d', if d' = d then x else v)) s) d''
     = (if d'' = d then (if d \<in> fst ` set s then Some x else None) else map_of s d'')"
  by (induction s) force+

lemma map_of_setitem: "map_of (setitem s d x) = (map_of s)(d \<mapsto> x)"
proof (cases "d \<in> fst ` set s")
  case True
  then have "map_of (map (\<lambda>(d', v). (d', if d' = d then x else v)) s) d''
               = ((map_of s)(d \<mapsto> x)) d''" for d''
    by (simp add: map_of_overwrite)
  then have "map_of (map (\<lambda>(d', v). (d', if d' = d then x else v)) s) = (map_of s)(d \<mapsto> x)"
    by (rule ext)
  with True show ?thesis
    by (simp add: setitem_def)
next
  case False
  then have "map_of s d = None"
    by (simp add: map_of_eq_None_iff)
  with False show ?thesis
    by (auto simp: setitem_def map_add_def fun_eq_iff split: option.splits)
qed

lemma value_at_in_index: "value_at s d \<noteq> None \<Longrightarrow> d \<in> set (map fst s)"
proof -
  assume "value_at s d \<noteq> None"
  then obtain v where "map_of s d = Some v"
    by (auto simp: value_at_def split: option.splits)
  then have "(d, v) \<in> set s"
    by (rule map_of_SomeD)
  then show ?thesis
    by force
qed

lemma map_of_splice_fold:
  "map_of (fold (\<lambda>date acc. if c < date \<and> value_at sec date \<noteq> None
                              then setitem acc date (value_at sec date) else acc) ds acc) d
     = (if d \<in> set ds \<and> c < d \<and> value_at sec d \<noteq> None then Some (value_at sec d)
        else map_of acc d)"
  by (induction ds arbitrary: acc) (auto simp: map_of_setitem)

lemma map_of_splice:
  "map_of (splice_series p c sec) d
     = (if c < d \<and> value_at sec d \<noteq> None then Some (value_at sec d) else map_of p d)"
  unfolding splice_series_def map_of_splice_fold
  using value_at_in_index [of sec d] by auto

lemma map_of_filter_key:
  "map_of s d = (case filter (\<lambda>p. fst p = d) s of [] \<Rightarrow> None | p # _ \<Rightarrow> Some (snd p))"
  by (induction s) auto

lemma map_of_sort_index [simp]: "map_of (sort_index s) d = map_of s d"
  by (simp add: map_of_filter_key sort_index_def sort_key_stable)

lemma last_filter_split:
  assumes "filter P xs \<noteq> []"
  shows "\<exists>us vs. xs = us @ last (filter P xs) # vs \<and> (\<forall>v \<in> set vs. \<not> P v)"
  using assms
proof (induction xs rule: rev_induct)
  case Nil
  then show ?case by simp
next
  case (snoc x xs)
  show ?case
  proof (cases "P x")
    case True
    then show ?thesis
      by (intro exI [of _ xs] exI [of _ "[]"]) simp
  next
    case False
    with snoc.prems have "filter P xs \<noteq> []" by simp
    from snoc.IH [OF this] obtain us vs
      where "xs = us @ last (filter P xs) # vs" "\<forall>v \<in> set vs. \<not> P v"
      by blast
    with False have "xs @ [x] = us @ last (filter P (xs @ [x])) # (vs @ [x])
        \<and> (\<forall>v \<in> set (vs @ [x]). \<not> P v)"
      by auto
    then show ?thesis by blast
  qed
qed

lemma no_value_after_cutover:
  assumes "sorted (map fst p)" and "dropna p \<noteq> []" and "fst (last (dropna p)) < d"
  shows "value_at p d = None"
proof (cases "map_of p d")
  case None
  then show ?thesis by (simp add: value_at_def)
next
  case (Some v)
  then have mem: "(d, v) \<in> set p"
    by (rule map_of_SomeD)
  from last_filter_split [of "\<lambda>(d, v). v \<noteq> None" p] assms(2)
  obtain us vs where p: "p = us @ last (dropna p) # vs" and vs: "\<forall>x \<in> set vs. snd x = None"
    unfolding dropna_def by (auto simp: split_def)
  from assms(1) have "\<forall>x \<in> set us. fst x \<le> fst (last (dropna p))"
    by (subst (asm) p) (auto simp: sorted_append)
  with assms(3) have "(d, v) \<notin> set us"
    by auto
  moreover from assms(3) have "fst (d, v) \<noteq> fst (last (dropna p))"
    by simp
  then have "(d, v) \<noteq> last (dropna p)"
    by metis
  ultimately have "(d, v) \<notin> set us" "(d, v) \<noteq> last (dropna p)"
    by simp_all
  with mem p have "(d, v) \<in> set vs"
    by (metis Un_iff set_ConsD set_append)
  with vs have "v = None" by auto
  with Some show ?thesis by (simp add: value_at_def)
qed

text \<open>
  What load\_gold\_silver\_data returns when its try block succeeds: both metals are
  spliced at the same cutover, the last date at which the World Bank gold column has a
  value.
\<close>

lemma bind_Inr:
  "bind m f s = (Inr y, s') \<Longrightarrow> \<exists>x s1. m s = (Inr x, s1) \<and> f x s1 = (Inr y, s')"
  by (cases "m s") (auto simp: bind_def split: sum.splits)

lemma gold_silver_body_result:
  assumes "gold_silver_body env end cache_dir s = (Inr (gold_monthly, gold_pct, silver_monthly, silver_pct), s')"
  shows "\<exists>wb_gold wb_silver yf_gold_close yf_silver_close s1.
           read_world_bank env cache_dir s = (Inr (wb_gold, wb_silver), s1)
           \<and> dropna wb_gold \<noteq> []
           \<and> gold_monthly = sort_index (splice_series wb_gold (fst (last (dropna wb_gold)))
                                           (resample_last yf_gold_close))
           \<and> silver_monthly = sort_index (splice_series wb_silver (fst (last (dropna wb_gold)))
                                             (resample_last yf_silver_close))
           \<and> gold_pct = pct_change 6 gold_monthly \<and> silver_pct = pct_change 6 silver_monthly"
proof -
  from assms obtain wb s1 where wb: "read_world_bank env cache_dir s = (Inr wb, s1)"
    unfolding gold_silver_body_def by (blast dest: bind_Inr)
  obtain wb_gold wb_silver where p: "wb = (wb_gold, wb_silver)"
    by (cases wb)
  from assms wb p have ne: "dropna wb_gold \<noteq> []"
    by (auto simp: gold_silver_body_def bind_def raise_def split: list.splits)
  then obtain g gs where g: "dropna wb_gold = g # gs"
    by (cases "dropna wb_gold") auto
  let ?c = "fst (last (dropna wb_gold))"
  from assms wb p g have
    "bind (say (Info ''  World Bank data: 1960-01 to ...'')) (\<lambda>_.
              bind (say (Info ''  Fetching recent Gold/Silver from Yahoo Finance...'')) (\<lambda>_.
              bind (load_or_download ''yf_gold.pkl'' (yf_download env ''GC=F'' ?c end)
                      ''Yahoo Finance Gold'' cache_dir) (\<lambda>yf_gold.
              bind (load_or_download ''yf_silver.pkl'' (yf_download env ''SI=F'' ?c end)
                      ''Yahoo Finance Silver'' cache_dir) (\<lambda>yf_silver.
              bind (lift (get_column yf_gold ''Close'')) (\<lambda>yf_gold_close.
              bind (lift (get_column yf_silver ''Close'')) (\<lambda>yf_silver_close.
                let yf_gold_monthly = resample_last yf_gold_close;
                    yf_silver_monthly = resample_last yf_silver_close;
                    gold_monthly = sort_index (splice_series wb_gold ?c yf_gold_monthly);
                    silver_monthly = sort_index (splice_series wb_silver ?c yf_silver_monthly);
                    gold_pct = pct_change 6 gold_monthly;
                    silver_pct = pct_change 6 silver_monthly
                in if dropna gold_monthly = [] then raise IndexError
                   else bind (say (Info ''  Gold: ...'')) (\<lambda>_.
                        if dropna silver_monthly = [] then raise IndexError
                        else bind (say (Info ''  Silver: ...'')) (\<lambda>_.
                             return (gold_monthly, gold_pct, silver_monthly, silver_pct))))))))) s1
      = (Inr (gold_monthly, gold_pct, silver_monthly, silver_pct), s')"
    by (simp add: gold_silver_body_def bind_def Let_def)
  then obtain yf_gold_close yf_silver_close s6 where
    "(let yf_gold_monthly = resample_last yf_gold_close;
                    yf_silver_monthly = resample_last yf_silver_close;
                    gold_monthly = sort_index (splice_series wb_gold ?c yf_gold_monthly);
                    silver_monthly = sort_index (splice_series wb_silver ?c yf_silver_monthly);
                    gold_pct = pct_change 6 gold_monthly;
                    silver_pct = pct_change 6 silver_monthly
                in if dropna gold_monthly = [] then raise IndexError
                   else bind (say (Info ''  Gold: ...'')) (\<lambda>_.
                        if dropna silver_monthly = [] then raise IndexError
                        else bind (say (Info ''  Silver: ...'')) (\<lambda>_.
                             return (gold_monthly, gold_pct, silver_monthly, silver_pct)))) s6
      = (Inr (gold_monthly, gold_pct, silver_monthly, silver_pct), s')"
    by (blast dest!: bind_Inr)
  then have "gold_monthly = sort_index (splice_series wb_gold ?c (resample_last yf_gold_close))
      \<and> silver_monthly = sort_index (splice_series wb_silver ?c (resample_last yf_silver_close))
      \<and> gold_pct = pct_change 6 gold_monthly \<and> silver_pct = pct_change 6 silver_monthly"
    by (auto simp: Let_def raise_def bind_def say_def return_def split: if_splits)
  with wb p ne show ?thesis
    by blast
qed

text \<open>
  C2 (splice), as the code has it. The spliced series of a primary series \<open>p\<close>, a
  cutover \<open>c\<close> and a secondary series, after the final sort: at a date up to the
  cutover it has what the primary series has; at a later date where the secondary series
  has a value it has that value; at a later date where the secondary series has no value
  it has what the primary series itself has at that date, nothing being carried forward,
  and that is no value when the cutover is the last date at which \<open>p\<close>, in ascending
  date order, has a value. load\_gold\_silver\_data takes the cutover of both metals
  from the gold column (lemma \<open>gold_silver_body_result\<close>).
\<close>

theorem splice_values:
  "(d \<le> c \<longrightarrow> map_of (sort_index (splice_series p c sec)) d = map_of p d)
   \<and> (c < d \<longrightarrow> value_at sec d \<noteq> None \<longrightarrow>
        value_at (sort_index (splice_series p c sec)) d = value_at sec d)
   \<and> (c < d \<longrightarrow> value_at sec d = None \<longrightarrow> map_of (sort_index (splice_series p c sec)) d = map_of p d)
   \<and> (c < d \<longrightarrow> value_at sec d = None \<longrightarrow> sorted (map fst p) \<longrightarrow> dropna p \<noteq> [] \<longrightarrow>
        c = fst (last (dropna p)) \<longrightarrow> value_at (sort_index (splice_series p c sec)) d = None)"
proof -
  have "value_at (sort_index (splice_series p c sec)) d = None"
    if "c < d" "value_at sec d = None" "sorted (map fst p)" "dropna p \<noteq> []"
      "c = fst (last (dropna p))"
  proof -
    from that have "value_at p d = None"
      by (simp add: no_value_after_cutover)
    with that(1,2) show ?thesis
      by (simp add: value_at_def map_of_splice)
  qed
  then show ?thesis
    by (auto simp: map_of_splice value_at_def)
qed

theorem splice_values_witness:
  "(2020, 5, 31) \<le> ((2020, 6, 30) :: date)
   \<and> map_of (sort_index (splice_series wb_gold_example (2020, 6, 30) yahoo_gold_example)) (2020, 5, 31)
       = Some (Some 1715)
   \<and> ((2020, 6, 30) :: date) < (2020, 7, 31)
   \<and> value_at yahoo_gold_example (2020, 7, 31) \<noteq> None
   \<and> value_at (sort_index (splice_series wb_gold_example (2020, 6, 30) yahoo_gold_example)) (2020, 7, 31)
       = Some 1970
   \<and> ((2020, 6, 30) :: date) < (2020, 8, 31)
   \<and> value_at yahoo_gold_example (2020, 8, 31) = None
   \<and> sorted (map fst wb_gold_example) \<and> dropna wb_gold_example \<noteq> []
   \<and> (2020, 6, 30) = fst (last (dropna wb_gold_example))
   \<and> value_at (sort_index (splice_series wb_gold_example (2020, 6, 30) yahoo_gold_example)) (2020, 8, 31)
       = None
   \<and> map_of (sort_index (splice_series wb_gold_example (2020, 6, 30) yahoo_gold_example)) (2020, 8, 31)
       = None"
proof -
  have h: "(2020, 5, 31) \<le> ((2020, 6, 30) :: date)" "((2020, 6, 30) :: date) < (2020, 7, 31)"
      "value_at yahoo_gold_example (2020, 7, 31) = Some 1970"
      "((2020, 6, 30) :: date) < (2020, 8, 31)"
      "value_at yahoo_gold_example (2020, 8, 31) = None"
      "sorted (map fst wb_gold_example)" "dropna wb_gold_example \<noteq> []"
      "fst (last (dropna wb_gold_example)) = (2020, 6, 30)"
      "map_of wb_gold_example (2020, 5, 31) = Some (Some 1715)"
      "map_of wb_gold_example (2020, 8, 31) = None"
    by (simp_all add: wb_gold_example_def yahoo_gold_example_def value_at_def dropna_def)
  from splice_values [of "(2020, 5, 31)" "(2020, 6, 30)" wb_gold_example yahoo_gold_example]
    splice_values [of "(2020, 7, 31)" "(2020, 6, 30)" wb_gold_example yahoo_gold_example]
    splice_values [of "(2020, 8, 31)" "(2020, 6, 30)" wb_gold_example yahoo_gold_example]
    h
  show ?thesis
    by simp
qed

text \<open>
  The claim with the cutover of silver taken from the silver series fails: the World Bank
  silver column ends in May 2020, Yahoo Finance has a silver value for June 2020, and
  the spliced silver series has no value at 2020-06-30, because the cutover of both
  metals is the end of the gold column, 2020-06-30.
\<close>

theorem silver_cutover_counterexample:
  "fst (load_gold_silver_data metals_env None None ''data_cache'' empty_state)
     = Inr ([((2020, 4, 30), Some 1680), ((2020, 5, 31), Some 1715), ((2020, 6, 30), Some 1732),
             ((2020, 7, 31), Some 1970)],
            [((2020, 4, 30), None), ((2020, 5, 31), None), ((2020, 6, 30), None),
             ((2020, 7, 31), None)],
            [((2020, 4, 30), Some 15), ((2020, 5, 31), Some 16), ((2020, 6, 30), None),
             ((2020, 7, 31), Some 24)],
            [((2020, 4, 30), None), ((2020, 5, 31), None), ((2020, 6, 30), None),
             ((2020, 7, 31), None)])
   \<and> fst (last (dropna wb_silver_example)) = (2020, 5, 31)
   \<and> resample_last [((2020, 6, 30), Some 18), ((2020, 7, 31), Some 24)]
       = [((2020, 6, 30), Some 18), ((2020, 7, 31), Some 24)]"
  by code_simp




section \<open>Properties of the merge\<close>


lemma set_union_index [simp]: "set (union_index ss) = (\<Union>s \<in> set ss. fst ` set s)"
  by (auto simp: union_index_def)

lemma sorted_union_index [simp]: "sorted (union_index ss)" "distinct (union_index ss)"
  by (simp_all add: union_index_def)









section \<open>Properties of the recession column\<close>

text \<open>
  The table of a run of load\_all\_data that returns is the merge of five series and of
  the recession column that load\_recession\_data delivered in that run.
\<close>

lemma bind_InrE:
  assumes "bind m f s = (Inr y, s')"
  obtains x s1 where "m s = (Inr x, s1)" and "f x s1 = (Inr y, s')"
  using assms by (cases "m s") (auto simp: bind_def split: sum.splits)

lemma load_all_data_result:
  assumes "load_all_data env start_date end_date cache_dir s = (Inr combined, s')"
  shows "\<exists>nasdaq_pct sp500_pct spread gold_pct silver_pct s5 recession_result s6 recession.
           load_recession_data env (Some (start_or_default start_date))
               (Some (end_or_now env end_date s)) cache_dir s5 = (recession_result, s6)
           \<and> recession_column recession_result = Inr recession
           \<and> combined = combine nasdaq_pct sp500_pct spread gold_pct silver_pct recession"
  using assms unfolding load_all_data_def Let_def
  apply -
  apply (erule bind_InrE)
  apply (erule bind_InrE, clarsimp)
  apply (erule bind_InrE, clarsimp)
  apply (erule bind_InrE, clarsimp)
  apply (erule bind_InrE, clarsimp)
  apply (erule bind_InrE, clarsimp split: prod.splits)
  apply (erule bind_InrE, clarsimp simp: lift_def)
  apply (erule bind_InrE, clarsimp simp: lift_def)
  apply (erule bind_InrE, clarsimp simp: return_def)
  apply blast
  done



end
